theory Spec2Isabelle
  imports Main "HOL-Library.Sublist"
begin

section \<open>The command terminal of the portfolio page\<close>

text \<open>
  The terminal widget is one \<^verbatim>\<open>DOMContentLoaded\<close> handler: a constant object
  \<^verbatim>\<open>commands\<close>, a \<^verbatim>\<open>keydown\<close> listener on the input field, a \<^verbatim>\<open>click\<close> listener on the
  terminal body and the function \<^verbatim>\<open>executeCommand\<close>. The model covers the case in which
  the elements \<^verbatim>\<open>#terminal-input\<close>, \<^verbatim>\<open>#terminal-history\<close> and \<^verbatim>\<open>.terminal-body\<close> exist
  (otherwise the handler returns before it registers anything).

  Strings are lists of \<^typ>\<open>char\<close>, read as the code units U+0000 to U+00FF; the
  functions below say what JavaScript does on that range.
\<close>

subsection \<open>Data\<close>

text \<open>
  A child of \<^verbatim>\<open>#terminal-history\<close>: a \<^verbatim>\<open>div.terminal-history-line\<close> with the markup that
  was assigned to its \<^verbatim>\<open>innerHTML\<close>, or a \<^verbatim>\<open>div.terminal-output\<close> with the string that was
  assigned to its \<^verbatim>\<open>textContent\<close>.
\<close>

datatype entry = HistoryLine string | TerminalOutput string

text \<open>
  The parts of the page that the listeners read or write: the children of
  \<^verbatim>\<open>terminalHistory\<close>, \<^verbatim>\<open>terminalInput.value\<close>, \<^verbatim>\<open>terminalBody.scrollTop\<close>, and whether the
  input field has the focus.
\<close>

record terminal =
  terminalHistory :: "entry list"
  input_value :: string
  scrollTop :: nat
  input_focused :: bool

text \<open>
  What the browser's layout contributes: the \<^verbatim>\<open>scrollHeight\<close> of the terminal body for
  given children of the history, and its \<^verbatim>\<open>clientHeight\<close>. Both depend on the style
  sheet and are parameters here.
\<close>

record layout =
  scrollHeight :: "entry list \<Rightarrow> nat"
  clientHeight :: nat

text \<open>The values a property read on \<^verbatim>\<open>commands\<close> can give.\<close>

datatype js_value =
    JSUndefined
  | JSString string
  | JSNativeFunction string
  | JSObjectPrototype

subsection \<open>The command table\<close>

definition commands :: "(string \<times> string) list" where
  \<open>commands =
    [(''help'', ''Available commands: help, clear, whoami, ls, projects, skills, contact, social''),
     (''whoami'', ''Aryan Yadav - CS Student, Web Developer, and Cybersecurity Enthusiast.''),
     (''ls'', ''about.txt  projects/  skills/  certifications/''),
     (''projects'', ''Featured: Property Shodh, Virtual Office. Type "ls projects" for details.''),
     (''skills'', ''Languages: Python, JS, TS, Java, C++. Frontend: React, Next.js. Backend: Node.js, Express.''),
     (''contact'', ''Email: aryan.yadav.prof@gmail.com''),
     (''social'', ''GitHub: github.com/Aryan20051  |  LinkedIn: linkedin.com/in/aryan-yadav01'')]\<close>

text \<open>
  \<^verbatim>\<open>commands\<close> is an object literal, so its prototype is \<^verbatim>\<open>Object.prototype\<close>, and
  \<^verbatim>\<open>commands[cmd]\<close> finds the properties of that object too: the constructor, the
  built-in methods, and the accessor \<^verbatim>\<open>__proto__\<close>, whose getter returns the prototype
  itself.
\<close>

definition Object_prototype :: "(string \<times> js_value) list" where
  "Object_prototype =
    [(''constructor'', JSNativeFunction ''Object''),
     (''__defineGetter__'', JSNativeFunction ''__defineGetter__''),
     (''__defineSetter__'', JSNativeFunction ''__defineSetter__''),
     (''hasOwnProperty'', JSNativeFunction ''hasOwnProperty''),
     (''__lookupGetter__'', JSNativeFunction ''__lookupGetter__''),
     (''__lookupSetter__'', JSNativeFunction ''__lookupSetter__''),
     (''isPrototypeOf'', JSNativeFunction ''isPrototypeOf''),
     (''propertyIsEnumerable'', JSNativeFunction ''propertyIsEnumerable''),
     (''toString'', JSNativeFunction ''toString''),
     (''valueOf'', JSNativeFunction ''valueOf''),
     (''__proto__'', JSObjectPrototype),
     (''toLocaleString'', JSNativeFunction ''toLocaleString'')]"

text \<open>\<^verbatim>\<open>commands[cmd]\<close>: own properties first, then the prototype, else \<^verbatim>\<open>undefined\<close>.\<close>

definition get_property :: "string \<Rightarrow> js_value" where
  "get_property cmd =
    (case map_of commands cmd of
       Some v \<Rightarrow> JSString v
     | None \<Rightarrow> (case map_of Object_prototype cmd of
                  Some v \<Rightarrow> v
                | None \<Rightarrow> JSUndefined))"

text \<open>The test of \<^verbatim>\<open>if (commands[cmd])\<close>.\<close>

fun truthy :: "js_value \<Rightarrow> bool" where
  "truthy JSUndefined = False"
| "truthy (JSString s) = (s \<noteq> [])"
| "truthy (JSNativeFunction n) = True"
| "truthy JSObjectPrototype = True"

text \<open>
  The string that assigning a value to \<^verbatim>\<open>textContent\<close> stores. The text of a built-in
  function is the one V8 and JavaScriptCore print; other engines lay it out differently.
\<close>

fun ToString :: "js_value \<Rightarrow> string" where
  "ToString JSUndefined = ''undefined''"
| "ToString (JSString s) = s"
| "ToString (JSNativeFunction n) = ''function '' @ n @ ''() { [native code] }''"
| "ToString JSObjectPrototype = ''[object Object]''"

subsection \<open>Normalising the input\<close>

text \<open>
  \<^verbatim>\<open>toLowerCase\<close> on code units below 256: the letters A to Z and the capitals U+00C0 to
  U+00DE (without the multiplication sign U+00D7) move up by 32, everything else stays.
\<close>

definition toLowerCase_char :: "char \<Rightarrow> char" where
  "toLowerCase_char c =
    (let n = (of_char c :: nat)
     in if (65 \<le> n \<and> n \<le> 90) \<or> (192 \<le> n \<and> n \<le> 222 \<and> n \<noteq> 215)
        then char_of (n + 32) else c)"

definition toLowerCase :: "string \<Rightarrow> string" where
  "toLowerCase s = map toLowerCase_char s"

text \<open>
  The white space and line terminators that \<^verbatim>\<open>trim\<close> removes, among the code units below
  256: tab, line feed, vertical tab, form feed, carriage return, space, no-break space.
\<close>

definition isWhiteSpace :: "char \<Rightarrow> bool" where
  "isWhiteSpace c = ((of_char c :: nat) \<in> {9, 10, 11, 12, 13, 32, 160})"

definition trim :: "string \<Rightarrow> string" where
  "trim s = rev (dropWhile isWhiteSpace (rev (dropWhile isWhiteSpace s)))"

text \<open>\<^verbatim>\<open>terminalInput.value.toLowerCase().trim()\<close>\<close>

definition normalize :: "string \<Rightarrow> string" where
  "normalize v = trim (toLowerCase v)"

subsection \<open>executeCommand and the listeners\<close>

text \<open>The template literal assigned to \<^verbatim>\<open>historyLine.innerHTML\<close>.\<close>

definition prompt_markup :: string where
  \<open>prompt_markup =
    ''<span class="terminal-prompt">aryan@dev</span><span class="terminal-text">:~$</span> ''\<close>

definition historyLine_innerHTML :: "string \<Rightarrow> string" where
  "historyLine_innerHTML cmd = prompt_markup @ ''<span>'' @ cmd @ ''</span>''"

definition not_found_text :: "string \<Rightarrow> string" where
  "not_found_text cmd =
    ''Command not found: '' @ cmd @ ''. Type 'help' for available commands.''"

text \<open>
  \<^verbatim>\<open>terminalHistory.appendChild\<close>, and the assignment
  \<^verbatim>\<open>terminalBody.scrollTop = terminalBody.scrollHeight\<close>, which the browser clamps to the
  largest scroll position, \<^verbatim>\<open>scrollHeight - clientHeight\<close>.
\<close>

definition appendChild :: "entry \<Rightarrow> terminal \<Rightarrow> terminal" where
  "appendChild e st = st\<lparr>terminalHistory := terminalHistory st @ [e]\<rparr>"

definition scroll_to_bottom :: "layout \<Rightarrow> terminal \<Rightarrow> terminal" where
  "scroll_to_bottom lay st =
    st\<lparr>scrollTop := min (scrollHeight lay (terminalHistory st))
                        (scrollHeight lay (terminalHistory st) - clientHeight lay)\<rparr>"

text \<open>
  On the two early returns of \<^verbatim>\<open>executeCommand\<close> no statement assigns the scroll position,
  but the children of the history have changed. When the browser lays the page out
  again it keeps the position if it still lies in the scrollable range of the new
  content, and otherwise moves it back to the largest position of that range; after
  \<^verbatim>\<open>innerHTML = ''\<close> that is the range of the emptied history.
\<close>

definition relayout :: "layout \<Rightarrow> terminal \<Rightarrow> terminal" where
  "relayout lay st =
    st\<lparr>scrollTop := min (scrollTop st)
                        (scrollHeight lay (terminalHistory st) - clientHeight lay)\<rparr>"

text \<open>
  The body of \<^verbatim>\<open>executeCommand\<close>, in the order of the source: the history line is
  appended first, then come the two early returns, then the output element and the
  assignment of the scroll position.
\<close>

definition executeCommand :: "layout \<Rightarrow> string \<Rightarrow> terminal \<Rightarrow> terminal" where
  "executeCommand lay cmd st =
    (let st1 = appendChild (HistoryLine (historyLine_innerHTML cmd)) st
     in if cmd = [] then relayout lay st1
        else if cmd = ''clear'' then relayout lay (st1\<lparr>terminalHistory := []\<rparr>)
        else
          let textContent =
                (if truthy (get_property cmd) then ToString (get_property cmd)
                 else not_found_text cmd)
          in scroll_to_bottom lay (appendChild (TerminalOutput textContent) st1))"

text \<open>The \<^verbatim>\<open>keydown\<close> listener, for the key \<^verbatim>\<open>Enter\<close>.\<close>

definition keydown_Enter :: "layout \<Rightarrow> terminal \<Rightarrow> terminal" where
  "keydown_Enter lay st =
    (let input = normalize (input_value st)
     in (executeCommand lay input st)\<lparr>input_value := []\<rparr>)"

text \<open>The \<^verbatim>\<open>click\<close> listener of the terminal body.\<close>

definition terminalBody_click :: "terminal \<Rightarrow> terminal" where
  "terminalBody_click st = st\<lparr>input_focused := True\<rparr>"

text \<open>
  The contract \<^verbatim>\<open>execute(rawInput)\<close> of the specification: the user has typed
  \<^verbatim>\<open>rawInput\<close> into the field and presses Enter.
\<close>

definition execute :: "layout \<Rightarrow> string \<Rightarrow> terminal \<Rightarrow> terminal" where
  "execute lay rawInput st = keydown_Enter lay (st\<lparr>input_value := rawInput\<rparr>)"

fun run :: "layout \<Rightarrow> string list \<Rightarrow> terminal \<Rightarrow> terminal" where
  "run lay [] st = st"
| "run lay (rawInput # rest) st = run lay rest (execute lay rawInput st)"

subsection \<open>Notions that the properties below are stated with\<close>





text \<open>
  The shape of a transcript: an output element never comes first and never follows
  another output element, so each one stands directly behind a history line, and a
  history line has at most one output element behind it.
\<close>

fun output_follows_echo :: "entry list \<Rightarrow> bool" where
  "output_follows_echo [] = True"
| "output_follows_echo (TerminalOutput t # rest) = False"
| "output_follows_echo (HistoryLine h # TerminalOutput t # rest) = output_follows_echo rest"
| "output_follows_echo [HistoryLine h] = True"
| "output_follows_echo (HistoryLine h # HistoryLine h' # rest) =
    output_follows_echo (HistoryLine h' # rest)"

fun is_output :: "entry \<Rightarrow> bool" where
  "is_output (TerminalOutput t) = True"
| "is_output (HistoryLine h) = False"

text \<open>
  The names that a help text advertises: what follows the heading, split at each comma
  followed by a space.
\<close>

fun split_names :: "string \<Rightarrow> string \<Rightarrow> string list" where
  "split_names acc [] = [rev acc]"
| "split_names acc (c # cs) =
    (case cs of
       [] \<Rightarrow> split_names (c # acc) cs
     | d # ds \<Rightarrow>
         if c = CHR '','' \<and> d = CHR '' '' then rev acc # split_names [] ds
         else split_names (c # acc) cs)"

definition listed_names :: "string \<Rightarrow> string list option" where
  "listed_names text =
    (let heading = ''Available commands: ''
     in if take (length heading) text = heading
        then Some (split_names [] (drop (length heading) text)) else None)"

text \<open>A terminal with nothing in it, and a layout with rows of 24 pixels in a body of 240.\<close>

definition empty_terminal :: terminal where
  "empty_terminal =
    \<lparr>terminalHistory = [], input_value = [], scrollTop = 0, input_focused = True\<rparr>"

definition sample_layout :: layout where
  "sample_layout =
    \<lparr>scrollHeight = (\<lambda>children. 240 + 24 * length children), clientHeight = 240\<rparr>"

section \<open>Properties\<close>

subsection \<open>Lower case and trimming\<close>

lemma toLowerCase_char_idem: "toLowerCase_char (toLowerCase_char c) = toLowerCase_char c"
  by (auto simp: toLowerCase_char_def Let_def)










lemma set_trim: "set (trim s) \<subseteq> set s"
  by (auto simp: trim_def dest!: set_dropWhileD)

lemma normalize_lowercase: "c \<in> set (normalize s) \<Longrightarrow> toLowerCase_char c = c"
proof -
  assume "c \<in> set (normalize s)"
  then have "c \<in> set (toLowerCase s)"
    using set_trim by (auto simp: normalize_def)
  then show ?thesis
    by (auto simp: toLowerCase_def toLowerCase_char_idem)
qed

subsection \<open>What one call appends\<close>

lemma executeCommand_history:
  "terminalHistory (executeCommand lay cmd st) =
    (if cmd = [] then terminalHistory st @ [HistoryLine (historyLine_innerHTML cmd)]
     else if cmd = ''clear'' then []
     else terminalHistory st @
       [HistoryLine (historyLine_innerHTML cmd),
        TerminalOutput (if truthy (get_property cmd) then ToString (get_property cmd)
                        else not_found_text cmd)])"
  by (simp add: executeCommand_def appendChild_def scroll_to_bottom_def relayout_def Let_def)

lemma execute_history:
  "terminalHistory (execute lay rawInput st) =
    terminalHistory (executeCommand lay (normalize rawInput) st)"
  by (simp add: execute_def keydown_Enter_def executeCommand_def appendChild_def
      scroll_to_bottom_def relayout_def Let_def)


lemma normalize_clear: "normalize ''clear'' = ''clear''"
  by code_simp




text \<open>
  C3. Whatever the transcript holds, \<open>execute ''clear''\<close> leaves it with no element at
  all, so with length zero and without an output element.
\<close>

theorem clear_empties_transcript:
  "terminalHistory (execute lay ''clear'' st) = [] \<and>
   length (terminalHistory (execute lay ''clear'' st)) = 0"
  by (simp add: execute_history executeCommand_history normalize_clear)

subsection \<open>Strings that are not in the table\<close>

text \<open>
  Of the names that \<^verbatim>\<open>commands\<close> inherits, only \<^verbatim>\<open>constructor\<close> and \<^verbatim>\<open>__proto__\<close> are their
  own lower case, so only these two can arrive in \<^verbatim>\<open>executeCommand\<close>.
\<close>

lemma inherited_keys:
  "list_all (\<lambda>(k, v). k = ''constructor'' \<or> k = ''__proto__'' \<or>
      \<not> list_all (\<lambda>c. toLowerCase_char c = c) k) Object_prototype"
  by code_simp

lemma inherited_normalized:
  assumes "normalize s \<in> fst ` set Object_prototype"
  shows "normalize s = ''constructor'' \<or> normalize s = ''__proto__''"
proof -
  from assms obtain v where "(normalize s, v) \<in> set Object_prototype"
    by auto
  with inherited_keys have "normalize s = ''constructor'' \<or> normalize s = ''__proto__'' \<or>
      \<not> list_all (\<lambda>c. toLowerCase_char c = c) (normalize s)"
    by (auto simp: list_all_iff)
  moreover have "list_all (\<lambda>c. toLowerCase_char c = c) (normalize s)"
    by (simp add: list_all_iff normalize_lowercase)
  ultimately show ?thesis
    by blast
qed

lemma sublist_help: "sublist ''help'' (''. Type 'help' for available commands.'')"
  by code_simp

lemma sublist_after: "sublist xs zs \<Longrightarrow> sublist xs (ys @ zs)"
proof -
  assume "sublist xs zs"
  then obtain ps ss where "zs = ps @ xs @ ss"
    by (auto simp: sublist_def)
  then have "ys @ zs = (ys @ ps) @ xs @ ss"
    by simp
  then show ?thesis
    by (simp only: sublist_appendI)
qed

lemma not_found_history:
  assumes "normalize s \<notin> fst ` set commands"
    and "normalize s \<noteq> ''clear''"
    and "normalize s \<noteq> []"
    and "normalize s \<noteq> ''constructor''" and "normalize s \<noteq> ''__proto__''"
  shows "terminalHistory (execute lay s st) =
      terminalHistory st @
        [HistoryLine (historyLine_innerHTML (normalize s)),
         TerminalOutput (not_found_text (normalize s))]"
proof -
  have own: "map_of commands (normalize s) = None"
    using assms(1) by (simp add: map_of_eq_None_iff)
  have "normalize s \<notin> fst ` set Object_prototype"
    using assms(4,5) inherited_normalized by blast
  then have "map_of Object_prototype (normalize s) = None"
    by (simp add: map_of_eq_None_iff)
  with own have "get_property (normalize s) = JSUndefined"
    by (simp add: get_property_def)
  then show ?thesis
    using assms(2,3) by (simp add: execute_history executeCommand_history)
qed

text \<open>
  C2, as the code has it. The conditions are on the normalised input \<open>n\<close>, not on
  the text as typed: if \<open>n\<close> is no key of the table, is not \<^verbatim>\<open>clear\<close>, is not empty and
  is neither of the two inherited names, then \<open>execute s\<close> appends the echo of \<open>n\<close> and
  one output element with the text \<^verbatim>\<open>Command not found: n. Type 'help' for available commands.\<close>,
  which contains \<open>n\<close> and the word \<^verbatim>\<open>help\<close>. The functions are total: no branch raises.
\<close>

theorem command_not_found:
  assumes "normalize s \<notin> fst ` set commands"
    and "normalize s \<noteq> ''clear''"
    and "normalize s \<noteq> []"
    and "normalize s \<noteq> ''constructor''" and "normalize s \<noteq> ''__proto__''"
  shows "terminalHistory (execute lay s st) =
      terminalHistory st @
        [HistoryLine (historyLine_innerHTML (normalize s)),
         TerminalOutput (''Command not found: '' @ normalize s @
            ''. Type 'help' for available commands.'')]
    \<and> sublist (normalize s) (''Command not found: '' @ normalize s @
            ''. Type 'help' for available commands.'')
    \<and> sublist ''help'' (''Command not found: '' @ normalize s @
            ''. Type 'help' for available commands.'')"
    (is "?appended \<and> ?echoes \<and> ?hint")
proof -
  have ?appended
    using not_found_history [OF assms] by (simp only: not_found_text_def)
  moreover have ?echoes
    by (rule sublist_appendI)
  moreover have ?hint
    by (intro sublist_after sublist_help)
  ultimately show ?thesis
    by (intro conjI)
qed

theorem command_not_found_witness:
  "normalize ''foo'' \<notin> fst ` set commands \<and> normalize ''foo'' \<noteq> ''clear'' \<and>
   normalize ''foo'' \<noteq> [] \<and>
   terminalHistory (execute sample_layout ''foo'' empty_terminal) =
     [HistoryLine (historyLine_innerHTML ''foo''),
      TerminalOutput ''Command not found: foo. Type 'help' for available commands.'']"
proof -
  have n: "normalize ''foo'' = ''foo''"
    by code_simp
  have h1: "normalize ''foo'' \<notin> fst ` set commands"
    by (simp add: n commands_def)
  have h2: "normalize ''foo'' \<noteq> ''clear''" and h3: "normalize ''foo'' \<noteq> []"
    and h4: "normalize ''foo'' \<noteq> ''constructor''" and h5: "normalize ''foo'' \<noteq> ''__proto__''"
    by (simp_all add: n)
  have e: "terminalHistory empty_terminal = []"
    by (simp add: empty_terminal_def)
  from command_not_found [OF h1 h2 h3 h4 h5, of sample_layout empty_terminal]
  have "terminalHistory (execute sample_layout ''foo'' empty_terminal) =
     [HistoryLine (historyLine_innerHTML ''foo''),
      TerminalOutput (''Command not found: '' @ ''foo'' @ ''. Type 'help' for available commands.'')]"
    by (simp only: n e append_Nil)
  then show ?thesis
    using h1 h2 h3 by simp
qed

text \<open>
  The statement with the conditions on the text as typed fails: \<^verbatim>\<open>HELP\<close> is no key of the
  table, is not \<^verbatim>\<open>clear\<close> and is not blank, and it is answered with the help text.
\<close>

theorem command_not_found_counterexample:
  "''HELP'' \<notin> fst ` set commands \<and> ''HELP'' \<noteq> ''clear'' \<and> trim ''HELP'' \<noteq> [] \<and>
   terminalHistory (execute sample_layout ''HELP'' empty_terminal) \<noteq>
     [HistoryLine (historyLine_innerHTML (normalize ''HELP'')),
      TerminalOutput (''Command not found: '' @ normalize ''HELP'' @
        ''. Type 'help' for available commands.'')]"
  by code_simp

text \<open>
  The two inherited names are answered with the text of the inherited value, not with
  the message for an unknown command.
\<close>

lemma inherited_property_output:
  "terminalHistory (execute sample_layout ''__proto__'' empty_terminal) =
     [HistoryLine (historyLine_innerHTML ''__proto__''), TerminalOutput ''[object Object]'']
   \<and> terminalHistory (execute sample_layout ''constructor'' empty_terminal) =
     [HistoryLine (historyLine_innerHTML ''constructor''),
      TerminalOutput ''function Object() { [native code] }'']"
  by code_simp

subsection \<open>Empty input\<close>




subsection \<open>Case and surrounding white space\<close>









subsection \<open>The shape of the transcript\<close>

lemma output_follows_echo_append_line:
  "output_follows_echo xs \<Longrightarrow> output_follows_echo (xs @ [HistoryLine h])"
  by (induction xs rule: output_follows_echo.induct) simp_all

lemma output_follows_echo_append_pair:
  "output_follows_echo xs \<Longrightarrow> output_follows_echo (xs @ [HistoryLine h, TerminalOutput t])"
  by (induction xs rule: output_follows_echo.induct) simp_all

lemma output_follows_echo_execute:
  "output_follows_echo (terminalHistory st) \<Longrightarrow>
    output_follows_echo (terminalHistory (execute lay rawInput st))"
  by (simp add: execute_history executeCommand_history
      output_follows_echo_append_line output_follows_echo_append_pair)

lemma output_follows_echo_run:
  "output_follows_echo (terminalHistory st) \<Longrightarrow>
    output_follows_echo (terminalHistory (run lay inputs st))"
  by (induction inputs arbitrary: st) (simp_all add: output_follows_echo_execute)

text \<open>Read by position: an output element is never first and never behind another one.\<close>

lemma output_follows_echo_nth:
  "output_follows_echo xs \<Longrightarrow> i < length xs \<Longrightarrow> is_output (xs ! i) \<Longrightarrow>
    0 < i \<and> \<not> is_output (xs ! (i - 1))"
proof (induction xs arbitrary: i rule: output_follows_echo.induct)
  case 1
  then show ?case by simp
next
  case (2 t rest)
  then show ?case by simp
next
  case (3 h t rest)
  show ?case
  proof (cases "i < 2")
    case True
    with "3.prems" show ?thesis
      by (cases i) auto
  next
    case False
    then obtain j where j: "i = Suc (Suc j)"
      by (metis Suc_lessI less_2_cases_iff not_less_eq zero_less_Suc old.nat.exhaust)
    with "3.prems" "3.IH" [of j] have "0 < j \<and> \<not> is_output (rest ! (j - 1))"
      by simp
    with j show ?thesis
      by (cases j) auto
  qed
next
  case (4 h)
  then show ?case by simp
next
  case (5 h h' rest)
  show ?case
  proof (cases i)
    case 0
    with "5.prems" show ?thesis by simp
  next
    case (Suc j)
    with "5.prems" "5.IH" [of j] show ?thesis
      by (cases j) auto
  qed
qed

lemma execute_appends:
  "(normalize rawInput = ''clear'' \<and> terminalHistory (execute lay rawInput st) = []) \<or>
   (normalize rawInput \<noteq> ''clear'' \<and>
    prefix (terminalHistory st) (terminalHistory (execute lay rawInput st)))"
  by (simp add: execute_history executeCommand_history)

text \<open>
  C6. In every transcript that a sequence of \<open>execute\<close> calls builds from the empty one,
  each output element stands directly behind a history line (it is never first and
  never behind another output element), so a history line has at most one output
  element behind it; and a further call either keeps the transcript as a prefix of the
  new one, or is the command \<^verbatim>\<open>clear\<close> and leaves it empty.
\<close>

theorem transcript_invariant:
  assumes "terminalHistory st = []"
  shows "output_follows_echo (terminalHistory (run lay inputs st))
    \<and> (\<forall>i < length (terminalHistory (run lay inputs st)).
          is_output (terminalHistory (run lay inputs st) ! i) \<longrightarrow>
          0 < i \<and> \<not> is_output (terminalHistory (run lay inputs st) ! (i - 1)))
    \<and> (\<forall>i. i + 2 < length (terminalHistory (run lay inputs st)) \<longrightarrow>
          \<not> (is_output (terminalHistory (run lay inputs st) ! (i + 1)) \<and>
             is_output (terminalHistory (run lay inputs st) ! (i + 2))))
    \<and> ((normalize rawInput = ''clear'' \<and>
          terminalHistory (execute lay rawInput (run lay inputs st)) = []) \<or>
        (normalize rawInput \<noteq> ''clear'' \<and>
          prefix (terminalHistory (run lay inputs st))
            (terminalHistory (execute lay rawInput (run lay inputs st)))))"
proof -
  define h where "h = terminalHistory (run lay inputs st)"
  have shape: "output_follows_echo h"
    unfolding h_def using assms by (intro output_follows_echo_run) simp
  have behind: "0 < i \<and> \<not> is_output (h ! (i - 1))" if "i < length h" "is_output (h ! i)" for i
    using shape that by (rule output_follows_echo_nth)
  have single: "\<not> (is_output (h ! (i + 1)) \<and> is_output (h ! (i + 2)))" if "i + 2 < length h" for i
    using behind [of "i + 2"] that by auto
  show ?thesis
    using shape behind single execute_appends [of rawInput lay "run lay inputs st"]
    unfolding h_def by blast
qed

theorem transcript_invariant_witness:
  "terminalHistory empty_terminal = [] \<and>
   output_follows_echo (terminalHistory (run sample_layout [''help'', ''foo'', []] empty_terminal)) \<and>
   length (terminalHistory (run sample_layout [''help'', ''foo'', []] empty_terminal)) = 5 \<and>
   prefix (terminalHistory (run sample_layout [''help'', ''foo'', []] empty_terminal))
     (terminalHistory (execute sample_layout ''ls''
        (run sample_layout [''help'', ''foo'', []] empty_terminal)))"
proof -
  have start: "terminalHistory empty_terminal = []"
    by (simp add: empty_terminal_def)
  have ls: "normalize ''ls'' \<noteq> ''clear''"
    by code_simp
  have len: "length (terminalHistory (run sample_layout [''help'', ''foo'', []] empty_terminal)) = 5"
    by code_simp
  from transcript_invariant [OF start, of sample_layout "[''help'', ''foo'', []]" "''ls''"]
  show ?thesis
    using start ls len by blast
qed

subsection \<open>A session\<close>





subsection \<open>The echo\<close>





subsection \<open>What the Enter key changes\<close>




subsection \<open>The help text\<close>

text \<open>
  C10. The names that the answer to \<^verbatim>\<open>help\<close> lists are the keys of the command table
  together with \<^verbatim>\<open>clear\<close>: each listed name is a key or \<^verbatim>\<open>clear\<close>, and each key is listed.
\<close>

theorem help_lists_commands:
  "\<exists>text names. map_of commands ''help'' = Some text \<and> listed_names text = Some names \<and>
     set names = fst ` set commands \<union> {''clear''}"
proof -
  have answer: "map_of commands ''help'' =
      Some ''Available commands: help, clear, whoami, ls, projects, skills, contact, social''"
    by (simp add: commands_def)
  have names: "listed_names
      ''Available commands: help, clear, whoami, ls, projects, skills, contact, social'' =
      Some [''help'', ''clear'', ''whoami'', ''ls'', ''projects'', ''skills'', ''contact'', ''social'']"
    by code_simp
  have "set [''help'', ''clear'', ''whoami'', ''ls'', ''projects'', ''skills'', ''contact'', ''social'']
      = fst ` set commands \<union> {''clear''}"
    by (auto simp: commands_def)
  with answer names show ?thesis
    by blast
qed

end
